theory Spec2Isabelle
  imports Complex_Main
begin

section \<open>Strings and numbers of the host language\<close>

text \<open>
  Strings are \<open>string\<close> (lists of bytes). The characters that cannot be written inside
  an Isabelle literal are named here.
\<close>

definition squote :: char where "squote = CHR 0x27"
definition dquote :: char where "dquote = CHR 0x22"
definition backslash :: char where "backslash = CHR 0x5C"
definition newline :: char where "newline = CHR 0x0A"
definition creturn :: char where "creturn = CHR 0x0D"

text \<open>\<open>String.prototype.trim\<close>, on the ASCII white space (space, TAB, LF, VT, FF, CR).\<close>

definition is_ws :: "char \<Rightarrow> bool" where
  "is_ws c = (c = CHR '' '' \<or> c = CHR 0x09 \<or> c = CHR 0x0A \<or> c = CHR 0x0B
              \<or> c = CHR 0x0C \<or> c = CHR 0x0D)"

definition trim :: "string \<Rightarrow> string" where
  "trim s = rev (dropWhile is_ws (rev (dropWhile is_ws s)))"

text \<open>Decimal rendering of a non-negative integer, as a template literal prints it.\<close>

definition digit_char :: "nat \<Rightarrow> char" where
  "digit_char d = ''0123456789'' ! d"

fun show_nat :: "nat \<Rightarrow> string" where
  "show_nat n = (if n < 10 then [digit_char n]
                 else show_nat (n div 10) @ [digit_char (n mod 10)])"

declare show_nat.simps [simp del]

definition show_int :: "int \<Rightarrow> string" where
  "show_int i = (if i < 0 then ''-'' @ show_nat (nat (- i)) else show_nat (nat i))"

text \<open>
  A Number is idealised: \<open>NaN\<close> or an exact rational. Rounding to a double, the two
  infinities and the negative zero are outside the model.
\<close>

datatype number = NaN | Num rat

definition isNaN :: "number \<Rightarrow> bool" where
  "isNaN x = (case x of NaN \<Rightarrow> True | Num _ \<Rightarrow> False)"

text \<open>\<open>x <= 0\<close>, \<open>a < b\<close> and \<open>a * b\<close>: a comparison with \<open>NaN\<close> is false.\<close>

definition le_zero :: "number \<Rightarrow> bool" where
  "le_zero x = (case x of NaN \<Rightarrow> False | Num r \<Rightarrow> r \<le> 0)"

definition less_num :: "number \<Rightarrow> number \<Rightarrow> bool" where
  "less_num a b = (case (a, b) of (Num r, Num s) \<Rightarrow> r < s | _ \<Rightarrow> False)"

definition mul :: "number \<Rightarrow> number \<Rightarrow> number" where
  "mul a b = (case (a, b) of (Num r, Num s) \<Rightarrow> Num (r * s) | _ \<Rightarrow> NaN)"

text \<open>
  \<open>Number.prototype.toFixed(3)\<close>: the integer \<open>n\<close> with \<open>n / 1000\<close> nearest to the
  magnitude (the larger one on a tie), printed with at least four digits and a point
  before the last three. From \<open>10^21\<close> on the language prints the number with
  \<open>toString\<close> instead, which is a parameter here.
\<close>

definition fixed3_digits :: "rat \<Rightarrow> string" where
  "fixed3_digits x =
     (let n = nat \<lfloor>x * 1000 + 1 / 2\<rfloor>;
          m = show_nat n;
          m' = (if length m \<le> 3 then replicate (4 - length m) (CHR ''0'') @ m else m)
      in take (length m' - 3) m' @ ''.'' @ drop (length m' - 3) m')"

definition toFixed3 :: "(rat \<Rightarrow> string) \<Rightarrow> number \<Rightarrow> string" where
  "toFixed3 numberToString x =
     (case x of
        NaN \<Rightarrow> ''NaN''
      | Num r \<Rightarrow>
          if \<bar>r\<bar> \<ge> 10 ^ 21 then numberToString r
          else if r < 0 then ''-'' @ fixed3_digits (- r)
          else fixed3_digits r)"

text \<open>
  \<open>parseInt(s)\<close> without a radix: leading white space, an optional sign, an optional
  \<open>0x\<close> prefix, then the longest run of digits; \<open>None\<close> is \<open>NaN\<close>.
\<close>

definition digit_val :: "char \<Rightarrow> nat option" where
  "digit_val c =
     (let k = of_char c :: nat in
      if 48 \<le> k \<and> k \<le> 57 then Some (k - 48)
      else if 97 \<le> k \<and> k \<le> 122 then Some (k - 87)
      else if 65 \<le> k \<and> k \<le> 90 then Some (k - 55)
      else None)"

definition is_digit_in :: "nat \<Rightarrow> char \<Rightarrow> bool" where
  "is_digit_in radix c = (case digit_val c of None \<Rightarrow> False | Some d \<Rightarrow> d < radix)"

definition digits_value :: "nat \<Rightarrow> string \<Rightarrow> nat" where
  "digits_value radix ds = foldl (\<lambda>acc c. acc * radix + the (digit_val c)) 0 ds"

definition parseInt :: "string \<Rightarrow> int option" where
  "parseInt input =
     (let s = dropWhile is_ws input;
          neg = (s \<noteq> [] \<and> hd s = CHR ''-'');
          s1 = (if s \<noteq> [] \<and> (hd s = CHR ''+'' \<or> hd s = CHR ''-'') then tl s else s);
          hex = (take 2 s1 = ''0x'' \<or> take 2 s1 = ''0X'');
          radix = (if hex then 16 else 10);
          s2 = (if hex then drop 2 s1 else s1);
          z = takeWhile (is_digit_in radix) s2
      in if z = [] then None
         else Some ((if neg then - 1 else 1) * int (digits_value radix z)))"

definition int_number :: "int option \<Rightarrow> number" where
  "int_number v = (case v of None \<Rightarrow> NaN | Some i \<Rightarrow> Num (of_int i))"

section \<open>Argument vectors of the encoder\<close>

text \<open>The loop stage of \<open>createLoopedVideoWithAudio\<close> (server).\<close>

definition loopArgs :: "string \<Rightarrow> string \<Rightarrow> string list" where
  "loopArgs tempConcatFilePath tempLoopedVideoPath =
     [''-y'', ''-f'', ''concat'', ''-safe'', ''0'', ''-i'', tempConcatFilePath,
      ''-an'', ''-c:v'', ''copy'', tempLoopedVideoPath]"

text \<open>The compose stage; \<open>cap\<close> is \<open>totalLoopedVideoDuration.toFixed(3).toString()\<close>.\<close>

definition combineArgs :: "string \<Rightarrow> string \<Rightarrow> bool \<Rightarrow> string \<Rightarrow> string \<Rightarrow> string list" where
  "combineArgs tempLoopedVideoPath absInputAudioPath fullHD cap absOutputVideoPath =
     [''-y'',
      ''-i'', tempLoopedVideoPath,
      ''-stream_loop'', ''-1'',
      ''-i'', absInputAudioPath,
      ''-map'', ''0:v:0'',
      ''-map'', ''1:a:0'',
      ''-c:v'', (if fullHD then ''libx264'' else ''copy'')]
     @ (if fullHD then [''-vf'', ''scale=1920:1080'', ''-preset'', ''medium'', ''-crf'', ''23'']
        else [])
     @ [''-c:a'', ''aac'',
        ''-b:a'', ''192k'',
        ''-t'', cap,
        absOutputVideoPath]"





section \<open>The world outside the program\<close>

text \<open>
  An \<open>Error\<close> object with the properties the program attaches to it and reads back;
  \<open>None\<close> is \<open>undefined\<close>.
\<close>

datatype exit_code = ExitCode int | ExitNull

datatype js_error =
  Error (message: string)
        (stdout: "string option")
        (stderr: "string option")
        (code: "exit_code option")
        (ffmpegStdout: "string option")
        (ffmpegStderr: "string option")
        (originalError: "js_error option")

definition new_Error :: "string \<Rightarrow> js_error" where
  "new_Error msg = Error msg None None None None None None"

text \<open>Truthiness of a string-or-undefined value, \<open>a || b\<close> and \<open>e.originalError && e.originalError.f\<close>.\<close>

definition truthy :: "string option \<Rightarrow> bool" where
  "truthy v = (case v of None \<Rightarrow> False | Some s \<Rightarrow> s \<noteq> [])"

definition js_or :: "string option \<Rightarrow> string option \<Rightarrow> string option" where
  "js_or a b = (if truthy a then a else b)"

definition original_field :: "(js_error \<Rightarrow> string option) \<Rightarrow> js_error \<Rightarrow> string option" where
  "original_field f e = (case originalError e of None \<Rightarrow> None | Some orig \<Rightarrow> f orig)"

text \<open>
  What a child process does: it closes with an exit code (or \<open>null\<close>) after writing to
  its two streams, or it cannot be started. What \<open>exec\<close> hands to its callback: an
  error or none, and the two streams.
\<close>

datatype proc_outcome = Closed exit_code string string | SpawnError string

datatype shell_outcome = ShellDone "js_error option" string string

text \<open>
  Every launch is recorded: \<open>Spawn\<close> is \<open>spawn(command, args)\<close> without a shell,
  \<open>Exec\<close> is \<open>exec(commandLine)\<close>, which hands one string to a shell.
\<close>

datatype invocation = Spawn string "string list" | Exec string

type_synonym filesystem = "string \<rightharpoonup> string"

text \<open>
  The environment: the path library, the two configured directories, the clock behind
  \<open>Date.now()\<close>, \<open>parseFloat\<close>, \<open>Number.prototype.toString\<close>, the behaviour of the
  external tools on the file system, and the faults of the file system (\<open>Some msg\<close>:
  the operation on that path fails with that message).
\<close>

record env =
  resolve :: "string list \<Rightarrow> string"
  parse_name :: "string \<Rightarrow> string"
  UPLOAD_DIR :: string
  OUTPUT_DIR :: string
  clock :: "nat \<Rightarrow> nat"
  parseFloat :: "string \<Rightarrow> number"
  numberToString :: "rat \<Rightarrow> string"
  tool :: "string \<Rightarrow> string list \<Rightarrow> filesystem \<Rightarrow> proc_outcome \<times> filesystem"
  shell :: "string \<Rightarrow> filesystem \<Rightarrow> shell_outcome \<times> filesystem"
  writeFile_fault :: "string \<Rightarrow> string option"
  unlink_fault :: "string \<Rightarrow> string option"

text \<open>
  The state: the files and their contents, the number of clock readings taken, the
  launches made and the warnings printed with \<open>console.warn\<close>, in order.
\<close>

record world =
  files :: filesystem
  ticks :: nat
  launched :: "invocation list"
  warnings :: "string list"

definition Date_now :: "env \<Rightarrow> world \<Rightarrow> nat \<times> world" where
  "Date_now E w = (clock E (ticks w), w\<lparr>ticks := Suc (ticks w)\<rparr>)"

definition console_warn :: "world \<Rightarrow> string \<Rightarrow> world" where
  "console_warn w msg = w\<lparr>warnings := warnings w @ [msg]\<rparr>"

text \<open>\<open>fs.access\<close> and \<open>fs.existsSync\<close>: the path names a file.\<close>

definition existsSync :: "world \<Rightarrow> string \<Rightarrow> bool" where
  "existsSync w p = (files w p \<noteq> None)"

definition fs_access :: "world \<Rightarrow> string \<Rightarrow> bool" where
  "fs_access w p = (files w p \<noteq> None)"

definition fs_writeFile :: "env \<Rightarrow> world \<Rightarrow> string \<Rightarrow> string \<Rightarrow> (js_error + unit) \<times> world" where
  "fs_writeFile E w p content =
     (case writeFile_fault E p of
        Some msg \<Rightarrow> (Inl (new_Error msg), w)
      | None \<Rightarrow> (Inr (), w\<lparr>files := (files w)(p \<mapsto> content)\<rparr>))"

definition fs_unlink :: "env \<Rightarrow> world \<Rightarrow> string \<Rightarrow> (js_error + unit) \<times> world" where
  "fs_unlink E w p =
     (if files w p = None
      then (Inl (new_Error (''ENOENT: no such file or directory, unlink '' @ [squote] @ p @ [squote])), w)
      else case unlink_fault E p of
             Some msg \<Rightarrow> (Inl (new_Error msg), w)
           | None \<Rightarrow> (Inr (), w\<lparr>files := (files w)(p := None)\<rparr>))"

section \<open>server: \<open>executeCommand\<close> and \<open>getVideoDuration\<close>\<close>

definition show_code :: "exit_code \<Rightarrow> string" where
  "show_code c = (case c of ExitCode n \<Rightarrow> show_int n | ExitNull \<Rightarrow> ''null'')"

definition executeCommand ::
  "env \<Rightarrow> world \<Rightarrow> string \<Rightarrow> string list \<Rightarrow> (js_error + string \<times> string) \<times> world" where
  "executeCommand E w command args =
     (let w1 = w\<lparr>launched := launched w @ [Spawn command args]\<rparr> in
      case tool E command args (files w1) of
        (Closed c out err, fs') \<Rightarrow>
          (if c = ExitCode 0 then (Inr (out, err), w1\<lparr>files := fs'\<rparr>)
           else (Inl (Error (''Command '' @ [dquote] @ command @ [dquote]
                               @ '' failed with code '' @ show_code c @ ''.'')
                            (Some out) (Some err) (Some c) None None None),
                 w1\<lparr>files := fs'\<rparr>))
      | (SpawnError msg, fs') \<Rightarrow>
          (Inl (new_Error (''Failed to start subprocess for '' @ [dquote] @ command @ [dquote]
                  @ '': '' @ msg
                  @ ''. Ensure FFmpeg/ffprobe is installed and in your system'' @ [squote]
                  @ ''s PATH.'')), w1))"

definition probeArgs :: "string \<Rightarrow> string list" where
  "probeArgs filePath =
     [''-v'', ''error'',
      ''-show_entries'', ''format=duration'',
      ''-of'', ''default=noprint_wrappers=1:nokey=1'',
      filePath]"

text \<open>The body of the \<open>try\<close> of \<open>getVideoDuration\<close>.\<close>

definition getVideoDuration_try :: "env \<Rightarrow> world \<Rightarrow> string \<Rightarrow> (js_error + number) \<times> world" where
  "getVideoDuration_try E w filePath =
     (case executeCommand E w ''ffprobe'' (probeArgs filePath) of
        (Inl e, w1) \<Rightarrow> (Inl e, w1)
      | (Inr (out, err), w1) \<Rightarrow>
          (let w2 = (if err \<noteq> [] \<and> trim err \<noteq> [] \<and> trim out = []
                     then console_warn w1 (''ffprobe for '' @ filePath
                            @ '' produced stderr without stdout duration: '' @ trim err)
                     else w1);
               duration = parseFloat E (trim out)
           in if isNaN duration \<or> le_zero duration
              then (Inl (Error (''Could not parse a valid, positive video duration from ffprobe output for ''
                                 @ filePath @ ''. stdout: '' @ [dquote] @ trim out @ [dquote]
                                 @ '', stderr: '' @ [dquote] @ trim err @ [dquote])
                               None None None (Some out) (Some err) None), w2)
              else (Inr duration, w2)))"

definition getVideoDuration :: "env \<Rightarrow> world \<Rightarrow> string \<Rightarrow> (js_error + number) \<times> world" where
  "getVideoDuration E w filePath =
     (case getVideoDuration_try E w filePath of
        (Inr d, w1) \<Rightarrow> (Inr d, w1)
      | (Inl e, w1) \<Rightarrow>
          (Inl (Error (''Failed to get video duration for '' @ [dquote] @ filePath @ [dquote]
                         @ ''. '' @ message e)
                      None None None
                      (js_or (stdout e) (original_field stdout e))
                      (js_or (stderr e) (original_field stderr e))
                      (Some e)), w1))"

section \<open>server: \<open>createLoopedVideoWithAudio\<close>\<close>

text \<open>\<open>absInputVideoPath.replace(/\\/g, '/')\<close>.\<close>

definition videoPathForConcat :: "string \<Rightarrow> string" where
  "videoPathForConcat absInputVideoPath =
     map (\<lambda>c. if c = backslash then CHR ''/'' else c) absInputVideoPath"

definition directive :: "string \<Rightarrow> string" where
  "directive p = ''file '' @ [squote] @ p @ [squote] @ [newline]"

text \<open>
  The loop \<open>for (let i = 0; i < numLoops; ++i) concatFileContent += ...\<close>, from the
  counter \<open>i\<close> and the content so far.
\<close>

function concatFileContent_loop :: "nat \<Rightarrow> number \<Rightarrow> string \<Rightarrow> string \<Rightarrow> string" where
  "concatFileContent_loop i numLoops p content =
     (if less_num (Num (of_nat i)) numLoops
      then concatFileContent_loop (Suc i) numLoops p (content @ directive p)
      else content)"
  by pat_completeness auto
termination
proof (relation "measure (\<lambda>(i, numLoops, p, content).
                    case numLoops of NaN \<Rightarrow> 0 | Num r \<Rightarrow> nat \<lceil>r\<rceil> - i)")
  show "wf (measure (\<lambda>(i, numLoops, p, content).
                    case numLoops of NaN \<Rightarrow> 0 | Num r \<Rightarrow> nat \<lceil>r\<rceil> - i))"
    by simp
next
  fix i :: nat and numLoops :: number and p content :: string
  assume "less_num (Num (of_nat i)) numLoops"
  then obtain r where r: "numLoops = Num r" "of_nat i < r"
    by (cases numLoops) (auto simp: less_num_def)
  have "r \<le> of_int \<lceil>r\<rceil>" by (rule le_of_int_ceiling)
  with r(2) have "(of_nat i :: rat) < of_int \<lceil>r\<rceil>" by (rule less_le_trans)
  then have "(of_int (int i) :: rat) < of_int \<lceil>r\<rceil>" by simp
  then have "int i < \<lceil>r\<rceil>" by (simp only: of_int_less_iff)
  then have "i < nat \<lceil>r\<rceil>" by linarith
  with r(1) show "((Suc i, numLoops, p, content @ directive p), (i, numLoops, p, content))
        \<in> measure (\<lambda>(i, numLoops, p, content).
                    case numLoops of NaN \<Rightarrow> 0 | Num r \<Rightarrow> nat \<lceil>r\<rceil> - i)"
    by simp
qed

declare concatFileContent_loop.simps [simp del]

definition concatFileContent :: "string \<Rightarrow> number \<Rightarrow> string" where
  "concatFileContent absInputVideoPath numLoops =
     concatFileContent_loop 0 numLoops (videoPathForConcat absInputVideoPath) []"

definition tempConcatFilePath :: "env \<Rightarrow> nat \<Rightarrow> string" where
  "tempConcatFilePath E now = resolve E [UPLOAD_DIR E, ''ffmpeg_concat_'' @ show_nat now @ ''.txt'']"

definition tempLoopedVideoPath :: "env \<Rightarrow> nat \<Rightarrow> string" where
  "tempLoopedVideoPath E now =
     resolve E [UPLOAD_DIR E, ''temp_looped_video_only_'' @ show_nat now @ ''.mp4'']"

text \<open>
  The body of the \<open>try\<close>: probe, manifest, loop stage, compose stage. On success it
  returns \<open>outputPath\<close> and \<open>outputFileName\<close>.
\<close>

definition createLoopedVideoWithAudio_try ::
  "env \<Rightarrow> world \<Rightarrow> string \<Rightarrow> string \<Rightarrow> number \<Rightarrow> string \<Rightarrow> string \<Rightarrow> bool
     \<Rightarrow> string \<Rightarrow> string \<Rightarrow> (js_error + string \<times> string) \<times> world" where
  "createLoopedVideoWithAudio_try E w absInputVideoPath absInputAudioPath numLoops
       absOutputVideoPath outputFileName fullHD concatPath loopedPath =
     (case getVideoDuration E w absInputVideoPath of
        (Inl e, w1) \<Rightarrow> (Inl e, w1)
      | (Inr inputVideoDuration, w1) \<Rightarrow>
          (let totalLoopedVideoDuration = mul inputVideoDuration numLoops in
           case fs_writeFile E w1 concatPath (concatFileContent absInputVideoPath numLoops) of
             (Inl e, w2) \<Rightarrow> (Inl e, w2)
           | (Inr _, w2) \<Rightarrow>
               (case executeCommand E w2 ''ffmpeg'' (loopArgs concatPath loopedPath) of
                  (Inl e, w3) \<Rightarrow> (Inl e, w3)
                | (Inr _, w3) \<Rightarrow>
                    (case executeCommand E w3 ''ffmpeg''
                            (combineArgs loopedPath absInputAudioPath fullHD
                               (toFixed3 (numberToString E) totalLoopedVideoDuration)
                               absOutputVideoPath) of
                       (Inl e, w4) \<Rightarrow> (Inl e, w4)
                     | (Inr _, w4) \<Rightarrow> (Inr (absOutputVideoPath, outputFileName), w4)))))"

text \<open>The \<open>catch\<close>: the error is wrapped, with the tool's streams where they are found.\<close>

definition createLoopedVideoWithAudio_catch :: "js_error \<Rightarrow> js_error" where
  "createLoopedVideoWithAudio_catch e =
     Error (''Video processing failed: '' @ message e) None None None
       (if truthy (ffmpegStdout e) then ffmpegStdout e
        else if truthy (original_field stdout e) then original_field stdout e
        else None)
       (if truthy (ffmpegStderr e) then ffmpegStderr e
        else if truthy (original_field stderr e) then original_field stderr e
        else None)
       None"

text \<open>The \<open>finally\<close>: each temporary file is removed if it exists; a failure only warns.\<close>

definition remove_temp :: "env \<Rightarrow> world \<Rightarrow> string \<Rightarrow> world" where
  "remove_temp E w tempFile =
     (if existsSync w tempFile
      then (case fs_unlink E w tempFile of
              (Inr _, w1) \<Rightarrow> w1
            | (Inl e, w1) \<Rightarrow>
                console_warn w1 (''Warning: Could not remove temporary file: '' @ tempFile
                                  @ '' ('' @ message e @ '')''))
      else w)"

definition createLoopedVideoWithAudio_finally :: "env \<Rightarrow> world \<Rightarrow> string \<Rightarrow> string \<Rightarrow> world" where
  "createLoopedVideoWithAudio_finally E w concatPath loopedPath =
     foldl (remove_temp E) w [concatPath, loopedPath]"

definition createLoopedVideoWithAudio ::
  "env \<Rightarrow> world \<Rightarrow> string \<Rightarrow> string \<Rightarrow> number \<Rightarrow> string \<Rightarrow> bool
     \<Rightarrow> (js_error + string \<times> string) \<times> world" where
  "createLoopedVideoWithAudio E w inputVideoPath inputAudioPath numLoops outputFileName fullHD =
     (let absInputVideoPath = resolve E [inputVideoPath];
          absInputAudioPath = resolve E [inputAudioPath];
          absOutputVideoPath = resolve E [OUTPUT_DIR E, outputFileName]
      in if \<not> fs_access w absInputVideoPath
         then (Inl (new_Error (''Input video file not found at '' @ [squote] @ absInputVideoPath
                                @ [squote] @ '' (post-upload check)'')), w)
         else if \<not> fs_access w absInputAudioPath
         then (Inl (new_Error (''Input audio file not found at '' @ [squote] @ absInputAudioPath
                                @ [squote] @ '' (post-upload check)'')), w)
         else if le_zero numLoops
         then (Inl (new_Error ''Number of loops must be a positive integer.''), w)
         else
           (let (t1, wa) = Date_now E w;
                concatPath = tempConcatFilePath E t1;
                (t2, wb) = Date_now E wa;
                loopedPath = tempLoopedVideoPath E t2;
                (r, wc) = createLoopedVideoWithAudio_try E wb absInputVideoPath absInputAudioPath
                            numLoops absOutputVideoPath outputFileName fullHD concatPath loopedPath;
                wd = createLoopedVideoWithAudio_finally E wc concatPath loopedPath
            in case r of
                 Inl e \<Rightarrow> (Inl (createLoopedVideoWithAudio_catch e), wd)
               | Inr v \<Rightarrow> (Inr v, wd)))"

section \<open>server: the route \<open>/process-video\<close>\<close>

record upload =
  file_path :: string
  originalname :: string

record request =
  videoFile :: "upload option"
  audioFile :: "upload option"
  body_numLoops :: "string option"
  body_fullHD :: "string option"

record response =
  status :: nat
  success :: bool
  res_message :: string
  downloadUrl :: "string option"
  res_outputFileName :: "string option"

text \<open>\<open>if (existsSync(p)) await fs.unlink(p).catch(e => console.warn(msg))\<close>.\<close>

definition unlink_upload :: "env \<Rightarrow> world \<Rightarrow> string \<Rightarrow> string \<Rightarrow> world" where
  "unlink_upload E w p msg =
     (if existsSync w p
      then (case fs_unlink E w p of
              (Inr _, w1) \<Rightarrow> w1
            | (Inl e, w1) \<Rightarrow> console_warn w1 msg)
      else w)"

text \<open>\<open>name.replace(/[^a-zA-Z0-9_.-]/g, '_')\<close>.\<close>

definition is_name_char :: "char \<Rightarrow> bool" where
  "is_name_char c =
     (let k = of_char c :: nat in
      (97 \<le> k \<and> k \<le> 122) \<or> (65 \<le> k \<and> k \<le> 90) \<or> (48 \<le> k \<and> k \<le> 57)
      \<or> c = CHR ''_'' \<or> c = CHR ''.'' \<or> c = CHR ''-'')"

definition sanitize :: "string \<Rightarrow> string" where
  "sanitize name = map (\<lambda>c. if is_name_char c then c else CHR ''_'') name"

text \<open>\<open>s.replace(/\r\n|\r|\n/g, ' ')\<close>.\<close>

fun replace_newlines :: "string \<Rightarrow> string" where
  "replace_newlines (c # d # cs) =
     (if c = creturn \<and> d = newline then CHR '' '' # replace_newlines cs
      else if c = creturn \<or> c = newline then CHR '' '' # replace_newlines (d # cs)
      else c # replace_newlines (d # cs))"
| "replace_newlines [c] = (if c = creturn \<or> c = newline then '' '' else [c])"
| "replace_newlines [] = []"

definition clientErrorMessage :: "js_error \<Rightarrow> string" where
  "clientErrorMessage e =
     (let base = (if message e \<noteq> [] then message e
                  else ''An error occurred during video processing.'')
      in if truthy (ffmpegStderr e)
         then (let s = the (ffmpegStderr e);
                   cleanStderr = take 300 (replace_newlines s)
               in base @ '' (Details: '' @ cleanStderr
                    @ (if length s > 300 then ''...'' else []) @ '')'')
         else base)"

text \<open>The \<open>finally\<close> of the route: one \<open>try\<close> around both deletions.\<close>

definition delete_uploads :: "env \<Rightarrow> world \<Rightarrow> string \<Rightarrow> string \<Rightarrow> world" where
  "delete_uploads E w v a =
     (case (if existsSync w v then fs_unlink E w v else (Inr (), w)) of
        (Inl e, w1) \<Rightarrow>
          console_warn w1 (''Warning: Could not delete one or more uploaded files post-processing: ''
                            @ message e)
      | (Inr _, w1) \<Rightarrow>
          (case (if existsSync w1 a then fs_unlink E w1 a else (Inr (), w1)) of
             (Inl e, w2) \<Rightarrow>
               console_warn w2 (''Warning: Could not delete one or more uploaded files post-processing: ''
                                 @ message e)
           | (Inr _, w2) \<Rightarrow> w2))"

definition process_video :: "env \<Rightarrow> world \<Rightarrow> request \<Rightarrow> response \<times> world" where
  "process_video E w req =
     (case (videoFile req, audioFile req) of
        (Some v, Some a) \<Rightarrow>
          (let numLoops = int_number (parseInt (case body_numLoops req of
                                                  None \<Rightarrow> ''undefined'' | Some s \<Rightarrow> s))
           in if isNaN numLoops \<or> less_num numLoops (Num 1) \<or> less_num (Num 1000) numLoops
              then
                (let w1 = unlink_upload E w (file_path v)
                            ''Cleanup failed for video upload on invalid loops'';
                     w2 = unlink_upload E w1 (file_path a)
                            ''Cleanup failed for audio upload on invalid loops''
                 in (\<lparr>status = 400, success = False,
                      res_message = ''Number of loops must be an integer between 1 and 1000.'',
                      downloadUrl = None, res_outputFileName = None\<rparr>, w2))
              else
                (let fullHD = (body_fullHD req = Some ''true'');
                     originalVideoNameSanitized = sanitize (parse_name E (originalname v));
                     (t, w1) = Date_now E w;
                     outputFileName = ''looped_'' @ originalVideoNameSanitized @ ''_''
                                        @ show_nat t @ ''.mp4'';
                     (r, w2) = createLoopedVideoWithAudio E w1 (file_path v) (file_path a)
                                 numLoops outputFileName fullHD;
                     res = (case r of
                              Inr _ \<Rightarrow>
                                \<lparr>status = 200, success = True,
                                 res_message = ''Video processed successfully!'',
                                 downloadUrl = Some (''/processed/'' @ outputFileName),
                                 res_outputFileName = Some outputFileName\<rparr>
                            | Inl e \<Rightarrow>
                                \<lparr>status = 500, success = False,
                                 res_message = clientErrorMessage e,
                                 downloadUrl = None, res_outputFileName = None\<rparr>)
                 in (res, delete_uploads E w2 (file_path v) (file_path a))))
      | (ov, oa) \<Rightarrow>
          (let w1 = (case ov of
                       Some v \<Rightarrow> unlink_upload E w (file_path v)
                         ''Cleanup failed for partial video upload on missing files error''
                     | None \<Rightarrow> w);
               w2 = (case oa of
                       Some a \<Rightarrow> unlink_upload E w1 (file_path a)
                         ''Cleanup failed for partial audio upload on missing files error''
                     | None \<Rightarrow> w1)
           in (\<lparr>status = 400, success = False,
                res_message = ''Both video and audio files are required.'',
                downloadUrl = None, res_outputFileName = None\<rparr>, w2)))"

section \<open>VideoLooper.js: the command-line script\<close>

definition quoted :: "string \<Rightarrow> string" where
  "quoted p = [dquote] @ p @ [dquote]"

definition VideoLooper_executeCommand ::
  "env \<Rightarrow> world \<Rightarrow> string \<Rightarrow> (js_error + string \<times> string) \<times> world" where
  "VideoLooper_executeCommand E w command =
     (let w1 = w\<lparr>launched := launched w @ [Exec command]\<rparr> in
      case shell E command (files w1) of
        (ShellDone (Some e) out err, fs') \<Rightarrow> (Inl e, w1\<lparr>files := fs'\<rparr>)
      | (ShellDone None out err, fs') \<Rightarrow> (Inr (out, err), w1\<lparr>files := fs'\<rparr>))"

definition loopCommand :: "string \<Rightarrow> string \<Rightarrow> string" where
  "loopCommand concatPath loopedPath =
     ''ffmpeg -y -f concat -safe 0 -i '' @ quoted concatPath @ '' -an -c:v copy ''
       @ quoted loopedPath"

definition combineCommand :: "string \<Rightarrow> string \<Rightarrow> string \<Rightarrow> string" where
  "combineCommand loopedPath absInputAudioPath absOutputVideoPath =
     ''ffmpeg -y -i '' @ quoted loopedPath @ '' -i '' @ quoted absInputAudioPath
       @ '' -map 0:v:0 -map 1:a:0 -c:v copy -c:a aac -b:a 192k -shortest ''
       @ quoted absOutputVideoPath"

definition VideoLooper_try ::
  "env \<Rightarrow> world \<Rightarrow> string \<Rightarrow> string \<Rightarrow> number \<Rightarrow> string \<Rightarrow> string \<Rightarrow> string
     \<Rightarrow> (js_error + unit) \<times> world" where
  "VideoLooper_try E w absInputVideoPath absInputAudioPath numLoops absOutputVideoPath
       concatPath loopedPath =
     (case fs_writeFile E w concatPath (concatFileContent absInputVideoPath numLoops) of
        (Inl e, w1) \<Rightarrow> (Inl e, w1)
      | (Inr _, w1) \<Rightarrow>
          (case VideoLooper_executeCommand E w1 (loopCommand concatPath loopedPath) of
             (Inl e, w2) \<Rightarrow> (Inl e, w2)
           | (Inr _, w2) \<Rightarrow>
               (case VideoLooper_executeCommand E w2
                       (combineCommand loopedPath absInputAudioPath absOutputVideoPath) of
                  (Inl e, w3) \<Rightarrow> (Inl e, w3)
                | (Inr _, w3) \<Rightarrow> (Inr (), w3))))"

text \<open>The \<open>finally\<close> of the script: each deletion in a \<open>try\<close> of its own, with no check.\<close>

definition VideoLooper_remove :: "env \<Rightarrow> world \<Rightarrow> string \<Rightarrow> string \<Rightarrow> world" where
  "VideoLooper_remove E w kind tempFile =
     (case fs_unlink E w tempFile of
        (Inr _, w1) \<Rightarrow> w1
      | (Inl e, w1) \<Rightarrow>
          console_warn w1 (''Warning: Could not remove temporary '' @ kind @ '' file: ''
                            @ tempFile @ '' ('' @ message e @ '')''))"

definition VideoLooper_createLoopedVideoWithAudio ::
  "env \<Rightarrow> world \<Rightarrow> string \<Rightarrow> string \<Rightarrow> number \<Rightarrow> string \<Rightarrow> bool \<times> world" where
  "VideoLooper_createLoopedVideoWithAudio E w inputVideoPath inputAudioPath numLoops outputVideoPath =
     (let absInputVideoPath = resolve E [inputVideoPath];
          absInputAudioPath = resolve E [inputAudioPath];
          absOutputVideoPath = resolve E [outputVideoPath]
      in if \<not> fs_access w absInputVideoPath then (False, w)
         else if \<not> fs_access w absInputAudioPath then (False, w)
         else if le_zero numLoops then (False, w)
         else
           (let concatPath = resolve E [''ffmpeg_concat_list.txt''];
                loopedPath = resolve E [''temp_looped_video_only.mp4''];
                (r, w1) = VideoLooper_try E w absInputVideoPath absInputAudioPath numLoops
                            absOutputVideoPath concatPath loopedPath;
                w2 = VideoLooper_remove E w1 ''concat'' concatPath;
                w3 = VideoLooper_remove E w2 ''looped video'' loopedPath
            in (case r of Inl e \<Rightarrow> False | Inr _ \<Rightarrow> True, w3)))"

text \<open>
  The words a shell makes of a command line: split at spaces, except inside double
  quotes, which are removed.
\<close>

fun shell_words_from :: "bool \<Rightarrow> string \<Rightarrow> string \<Rightarrow> string list" where
  "shell_words_from inq cur [] = (if cur = [] then [] else [cur])"
| "shell_words_from inq cur (c # cs) =
     (if c = dquote then shell_words_from (\<not> inq) cur cs
      else if c = CHR '' '' \<and> \<not> inq
      then (if cur = [] then shell_words_from inq [] cs else cur # shell_words_from inq [] cs)
      else shell_words_from inq (cur @ [c]) cs)"

definition shell_words :: "string \<Rightarrow> string list" where
  "shell_words s = shell_words_from False [] s"

section \<open>Observations and a sample environment\<close>

definition is_spawn :: "invocation \<Rightarrow> bool" where
  "is_spawn i = (case i of Spawn _ _ \<Rightarrow> True | Exec _ \<Rightarrow> False)"

text \<open>
  From \<open>w\<close> to \<open>w'\<close> the record of launches has only grown, and only by launches
  without a shell.
\<close>

definition only_spawns :: "world \<Rightarrow> world \<Rightarrow> bool" where
  "only_spawns w w' =
     (take (length (launched w)) (launched w') = launched w
      \<and> list_all is_spawn (drop (length (launched w)) (launched w')))"



text \<open>
  A Windows-like host for the concrete runs: paths are joined with backslashes under
  \<open>C:\<close>, the clock stands still at one millisecond, the prober prints \<open>2.500000\<close>, the
  encoder writes its last argument, and no file operation fails.
\<close>

definition sample_join :: "string list \<Rightarrow> string" where
  "sample_join segs = (case segs of [] \<Rightarrow> [] | s # ss \<Rightarrow> s @ concat (map (\<lambda>t. backslash # t) ss))"

definition sample_resolve :: "string list \<Rightarrow> string" where
  "sample_resolve segs =
     (let j = sample_join segs in if take 2 j = ''C:'' then j else ''C:'' @ [backslash] @ j)"

definition sample_tool :: "string \<Rightarrow> string list \<Rightarrow> filesystem \<Rightarrow> proc_outcome \<times> filesystem" where
  "sample_tool command args fs =
     (if command = ''ffprobe'' then (Closed (ExitCode 0) (''2.500000'' @ [newline]) [], fs)
      else (Closed (ExitCode 0) [] ''frame=100'', fs(last args \<mapsto> ''media'')))"

definition sample_shell :: "string \<Rightarrow> filesystem \<Rightarrow> shell_outcome \<times> filesystem" where
  "sample_shell command fs =
     (ShellDone None [] ''frame=100'', fs(last (shell_words command) \<mapsto> ''media''))"

definition sample_parseFloat :: "string \<Rightarrow> number" where
  "sample_parseFloat s = (if s = ''2.500000'' then Num (5 / 2) else NaN)"

definition sample_env :: env where
  "sample_env =
     \<lparr>resolve = sample_resolve,
      parse_name = takeWhile (\<lambda>c. c \<noteq> CHR ''.''),
      UPLOAD_DIR = sample_resolve [''app'', ''uploads''],
      OUTPUT_DIR = sample_resolve [''app'', ''public'', ''processed''],
      clock = (\<lambda>n. 1700000000000),
      parseFloat = sample_parseFloat,
      numberToString = (\<lambda>r. ''1e+21''),
      tool = sample_tool,
      shell = sample_shell,
      writeFile_fault = (\<lambda>p. None),
      unlink_fault = (\<lambda>p. None)\<rparr>"


definition sample_world :: world where
  "sample_world =
     \<lparr>files = [sample_resolve [''clip.mp4''] \<mapsto> ''video'',
               sample_resolve [''other.mp4''] \<mapsto> ''video'',
               sample_resolve [''song.mp3''] \<mapsto> ''audio''],
      ticks = 0, launched = [], warnings = []\<rparr>"

definition sample_request :: "string \<Rightarrow> request" where
  "sample_request loops =
     \<lparr>videoFile = Some \<lparr>file_path = sample_resolve [''clip.mp4''], originalname = ''clip.mp4''\<rparr>,
      audioFile = Some \<lparr>file_path = sample_resolve [''song.mp3''], originalname = ''song.mp3''\<rparr>,
      body_numLoops = Some loops,
      body_fullHD = Some ''false''\<rparr>"

section \<open>The manifest loop\<close>






section \<open>What each step launches\<close>

lemma executeCommand_launched:
  "launched (snd (executeCommand E w c args)) = launched w @ [Spawn c args]"
  by (simp add: executeCommand_def Let_def split: prod.splits proc_outcome.splits)

lemma fs_writeFile_launched:
  "launched (snd (fs_writeFile E w p c)) = launched w"
  by (simp add: fs_writeFile_def split: option.splits)

lemma fs_unlink_launched:
  "launched (snd (fs_unlink E w p)) = launched w"
  by (simp add: fs_unlink_def split: option.splits)

lemma getVideoDuration_try_launched:
  "launched (snd (getVideoDuration_try E w p)) = launched w @ [Spawn ''ffprobe'' (probeArgs p)]"
  using executeCommand_launched [of E w "''ffprobe''" "probeArgs p"]
  by (auto simp: getVideoDuration_try_def Let_def console_warn_def split: prod.splits sum.splits)

lemma getVideoDuration_launched:
  "launched (snd (getVideoDuration E w p)) = launched w @ [Spawn ''ffprobe'' (probeArgs p)]"
  using getVideoDuration_try_launched [of E w p]
  by (auto simp: getVideoDuration_def split: prod.splits sum.splits)


section \<open>The shape of a run\<close>

lemma remove_temp_launched: "launched (remove_temp E w t) = launched w"
  using fs_unlink_launched [of E w t]
  by (auto simp: remove_temp_def console_warn_def split: prod.splits sum.splits)

lemma finally_launched:
  "launched (createLoopedVideoWithAudio_finally E w cp lp) = launched w"
  by (simp add: createLoopedVideoWithAudio_finally_def remove_temp_launched)

lemma create_run:
  assumes "fs_access w (resolve E [v])" and "fs_access w (resolve E [a])" and "\<not> le_zero n"
  shows "createLoopedVideoWithAudio E w v a n outName fhd =
     (case createLoopedVideoWithAudio_try E (w\<lparr>ticks := Suc (Suc (ticks w))\<rparr>)
             (resolve E [v]) (resolve E [a]) n (resolve E [OUTPUT_DIR E, outName]) outName fhd
             (tempConcatFilePath E (clock E (ticks w)))
             (tempLoopedVideoPath E (clock E (Suc (ticks w)))) of
        (r, wc) \<Rightarrow>
          (case r of Inl e \<Rightarrow> Inl (createLoopedVideoWithAudio_catch e) | Inr x \<Rightarrow> Inr x,
           createLoopedVideoWithAudio_finally E wc
             (tempConcatFilePath E (clock E (ticks w)))
             (tempLoopedVideoPath E (clock E (Suc (ticks w))))))"
  using assms
  by (simp add: createLoopedVideoWithAudio_def Let_def Date_now_def split: prod.splits sum.splits)

lemma create_rejects:
  assumes "\<not> fs_access w (resolve E [v]) \<or> \<not> fs_access w (resolve E [a]) \<or> le_zero n"
  shows "snd (createLoopedVideoWithAudio E w v a n outName fhd) = w"
    and "isl (fst (createLoopedVideoWithAudio E w v a n outName fhd))"
  using assms by (auto simp: createLoopedVideoWithAudio_def Let_def)

section \<open>Printing numbers\<close>




lemma show_nat_sample: "show_nat 1700000000000 = ''1700000000000''"
  by (simp add: show_nat.simps digit_char_def)

section \<open>Launches without a shell\<close>

lemma only_spawns_iff:
  "only_spawns w w' \<longleftrightarrow> (\<exists>xs. launched w' = launched w @ xs \<and> list_all is_spawn xs)"
proof
  assume "only_spawns w w'"
  then have "launched w' = launched w @ drop (length (launched w)) (launched w')"
    and "list_all is_spawn (drop (length (launched w)) (launched w'))"
    unfolding only_spawns_def by (metis append_take_drop_id, simp)
  then show "\<exists>xs. launched w' = launched w @ xs \<and> list_all is_spawn xs" by blast
next
  assume "\<exists>xs. launched w' = launched w @ xs \<and> list_all is_spawn xs"
  then show "only_spawns w w'" by (auto simp: only_spawns_def)
qed

lemma only_spawns_same: "launched w' = launched w \<Longrightarrow> only_spawns w w'"
  by (simp add: only_spawns_iff)

lemma only_spawns_trans: "only_spawns w w1 \<Longrightarrow> only_spawns w1 w2 \<Longrightarrow> only_spawns w w2"
  by (auto simp: only_spawns_iff)

lemma executeCommand_only_spawns:
  "executeCommand E w c args = (r, w') \<Longrightarrow> only_spawns w w'"
  using executeCommand_launched [of E w c args]
  by (simp add: only_spawns_iff is_spawn_def)

lemma getVideoDuration_only_spawns:
  "getVideoDuration E w p = (r, w') \<Longrightarrow> only_spawns w w'"
  using getVideoDuration_launched [of E w p]
  by (simp add: only_spawns_iff is_spawn_def)

lemma fs_writeFile_only_spawns:
  "fs_writeFile E w p c = (r, w') \<Longrightarrow> only_spawns w w'"
  using fs_writeFile_launched [of E w p c] by (simp add: only_spawns_same)

lemma try_only_spawns:
  "only_spawns w (snd (createLoopedVideoWithAudio_try E w a aud n out outName fhd cp lp))"
  unfolding createLoopedVideoWithAudio_try_def Let_def
  by (auto split: prod.splits sum.splits
        intro: only_spawns_trans
        dest!: getVideoDuration_only_spawns fs_writeFile_only_spawns executeCommand_only_spawns)

lemma create_only_spawns:
  "only_spawns w (snd (createLoopedVideoWithAudio E w v a n outName fhd))"
proof (cases "fs_access w (resolve E [v]) \<and> fs_access w (resolve E [a]) \<and> \<not> le_zero n")
  case True
  let ?wb = "w\<lparr>ticks := Suc (Suc (ticks w))\<rparr>"
  let ?cp = "tempConcatFilePath E (clock E (ticks w))"
  let ?lp = "tempLoopedVideoPath E (clock E (Suc (ticks w)))"
  obtain r wc where t: "createLoopedVideoWithAudio_try E ?wb (resolve E [v]) (resolve E [a]) n
       (resolve E [OUTPUT_DIR E, outName]) outName fhd ?cp ?lp = (r, wc)"
    by (cases "createLoopedVideoWithAudio_try E ?wb (resolve E [v]) (resolve E [a]) n
       (resolve E [OUTPUT_DIR E, outName]) outName fhd ?cp ?lp")
  have "only_spawns w ?wb" by (simp add: only_spawns_same)
  moreover have "only_spawns ?wb wc"
    using try_only_spawns [of ?wb E "resolve E [v]" "resolve E [a]" n
        "resolve E [OUTPUT_DIR E, outName]" outName fhd ?cp ?lp] t by simp
  moreover have "only_spawns wc (createLoopedVideoWithAudio_finally E wc ?cp ?lp)"
    by (simp add: only_spawns_same finally_launched)
  ultimately have "only_spawns w (createLoopedVideoWithAudio_finally E wc ?cp ?lp)"
    by (blast intro: only_spawns_trans)
  with True t show ?thesis by (simp add: create_run)
next
  case False
  then show ?thesis
    using create_rejects(1) [of w E v a n outName fhd]
    by (auto simp: only_spawns_same)
qed

lemma unlink_upload_launched: "launched (unlink_upload E w p m) = launched w"
  using fs_unlink_launched [of E w p]
  by (auto simp: unlink_upload_def console_warn_def split: prod.splits sum.splits)

lemma delete_uploads_launched: "launched (delete_uploads E w v a) = launched w"
proof -
  have u: "launched (snd (if existsSync w' p then fs_unlink E w' p else (Inr (), w'))) = launched w'"
    for w' p
    by (simp add: fs_unlink_launched)
  obtain r1 w1 where e1: "(if existsSync w v then fs_unlink E w v else (Inr (), w)) = (r1, w1)"
    by (cases "if existsSync w v then fs_unlink E w v else (Inr (), w)")
  with u [of w v] have l1: "launched w1 = launched w" by simp
  obtain r2 w2 where e2: "(if existsSync w1 a then fs_unlink E w1 a else (Inr (), w1)) = (r2, w2)"
    by (cases "if existsSync w1 a then fs_unlink E w1 a else (Inr (), w1)")
  with u [of w1 a] have l2: "launched w2 = launched w1" by simp
  show ?thesis
    unfolding delete_uploads_def e1
    by (cases r1; cases r2) (simp_all add: e2 l1 l2 console_warn_def)
qed

lemma process_video_only_spawns: "only_spawns w (snd (process_video E w req))"
proof (cases "videoFile req")
  case None
  then show ?thesis
    by (simp add: process_video_def Let_def only_spawns_same unlink_upload_launched
          split: option.splits)
next
  case v: (Some v)
  show ?thesis
  proof (cases "audioFile req")
    case None
    with v show ?thesis
      by (simp add: process_video_def Let_def only_spawns_same unlink_upload_launched)
  next
    case a: (Some a)
    let ?n = "int_number (parseInt (case body_numLoops req of None \<Rightarrow> ''undefined'' | Some s \<Rightarrow> s))"
    show ?thesis
    proof (cases "isNaN ?n \<or> less_num ?n (Num 1) \<or> less_num (Num 1000) ?n")
      case True
      with v a show ?thesis
        by (simp add: process_video_def Let_def only_spawns_same unlink_upload_launched)
    next
      case False
      let ?w1 = "w\<lparr>ticks := Suc (ticks w)\<rparr>"
      let ?name = "''looped_'' @ sanitize (parse_name E (originalname v)) @ ''_''
                     @ show_nat (clock E (ticks w)) @ ''.mp4''"
      obtain r w2 where c: "createLoopedVideoWithAudio E ?w1 (file_path v) (file_path a) ?n
                              ?name (body_fullHD req = Some ''true'') = (r, w2)"
        by (cases "createLoopedVideoWithAudio E ?w1 (file_path v) (file_path a) ?n
                              ?name (body_fullHD req = Some ''true'')")
      have "only_spawns w ?w1" by (simp add: only_spawns_same)
      moreover have "only_spawns ?w1 w2"
        using create_only_spawns [of ?w1 E "file_path v" "file_path a" ?n ?name
            "body_fullHD req = Some ''true''"] c by simp
      moreover have "only_spawns w2 (delete_uploads E w2 (file_path v) (file_path a))"
        by (simp add: only_spawns_same delete_uploads_launched)
      ultimately have "only_spawns w (delete_uploads E w2 (file_path v) (file_path a))"
        by (blast intro: only_spawns_trans)
      with v a False c show ?thesis
        by (simp add: process_video_def Let_def Date_now_def)
    qed
  qed
qed

section \<open>The shape of a run of the script\<close>

lemma VideoLooper_remove_launched: "launched (VideoLooper_remove E w k t) = launched w"
  using fs_unlink_launched [of E w t]
  by (auto simp: VideoLooper_remove_def console_warn_def split: prod.splits sum.splits)

lemma VideoLooper_run_launched:
  assumes "fs_access w (resolve E [v])" and "fs_access w (resolve E [a])" and "\<not> le_zero n"
  shows "launched (snd (VideoLooper_createLoopedVideoWithAudio E w v a n out))
           = launched (snd (VideoLooper_try E w (resolve E [v]) (resolve E [a]) n (resolve E [out])
                (resolve E [''ffmpeg_concat_list.txt''])
                (resolve E [''temp_looped_video_only.mp4''])))"
  using assms
  by (simp add: VideoLooper_createLoopedVideoWithAudio_def Let_def VideoLooper_remove_launched
        split: prod.splits)

section \<open>Cleaning up\<close>

















section \<open>The route\<close>



section \<open>Facts about the sample environment\<close>


lemma sample_probe:
  "getVideoDuration sample_env w a =
     (Inr (Num (5 / 2)), w\<lparr>launched := launched w @ [Spawn ''ffprobe'' (probeArgs a)]\<rparr>)"
  by (simp add: getVideoDuration_def getVideoDuration_try_def executeCommand_def Let_def
        sample_env_def sample_tool_def sample_parseFloat_def trim_def is_ws_def newline_def
        isNaN_def le_zero_def)

lemma sample_write:
  "fs_writeFile sample_env w p c = (Inr (), w\<lparr>files := (files w)(p \<mapsto> c)\<rparr>)"
  by (simp add: fs_writeFile_def sample_env_def)

lemma sample_ffmpeg:
  "executeCommand sample_env w ''ffmpeg'' args =
     (Inr ([], ''frame=100''),
      w\<lparr>launched := launched w @ [Spawn ''ffmpeg'' args],
        files := (files w)(last args \<mapsto> ''media'')\<rparr>)"
  by (simp add: executeCommand_def Let_def sample_env_def sample_tool_def)

lemma sample_access:
  "fs_access sample_world (resolve sample_env [''clip.mp4''])"
  "fs_access sample_world (resolve sample_env [''song.mp3''])"
  by (simp_all add: fs_access_def sample_world_def sample_env_def sample_resolve_def
        sample_join_def backslash_def)

lemma sample_exec:
  "VideoLooper_executeCommand sample_env w command =
     (Inr ([], ''frame=100''),
      w\<lparr>launched := launched w @ [Exec command],
        files := (files w)(last (shell_words command) \<mapsto> ''media'')\<rparr>)"
  by (simp add: VideoLooper_executeCommand_def Let_def sample_env_def sample_shell_def)

lemma sample_script_launched:
  "launched (snd (VideoLooper_createLoopedVideoWithAudio sample_env sample_world
      ''clip.mp4'' ''song.mp3'' (Num 2) ''out.mp4''))
   = [Exec (loopCommand (resolve sample_env [''ffmpeg_concat_list.txt''])
              (resolve sample_env [''temp_looped_video_only.mp4''])),
      Exec (combineCommand (resolve sample_env [''temp_looped_video_only.mp4''])
              (resolve sample_env [''song.mp3'']) (resolve sample_env [''out.mp4'']))]"
proof -
  have z: "\<not> le_zero (Num 2)" by (simp add: le_zero_def)
  have l: "launched sample_world = []" by (simp add: sample_world_def)
  show ?thesis
    unfolding VideoLooper_run_launched [OF sample_access z]
    by (simp add: VideoLooper_try_def sample_write sample_exec l)
qed


lemma sample_try:
  "createLoopedVideoWithAudio_try sample_env w a aud n out outName fhd cp lp =
     (Inr (out, outName),
      w\<lparr>launched := launched w @
           [Spawn ''ffprobe'' (probeArgs a), Spawn ''ffmpeg'' (loopArgs cp lp),
            Spawn ''ffmpeg'' (combineArgs lp aud fhd
              (toFixed3 (numberToString sample_env) (mul (Num (5 / 2)) n)) out)],
         files := (files w)(cp \<mapsto> concatFileContent a n, lp \<mapsto> ''media'', out \<mapsto> ''media'')\<rparr>)"
proof -
  have l1: "last (loopArgs cp lp) = lp" by (simp add: loopArgs_def)
  have l2: "last (combineArgs lp aud fhd c out) = out" for c by (simp add: combineArgs_def)
  show ?thesis
    by (simp add: createLoopedVideoWithAudio_try_def sample_probe sample_write sample_ffmpeg l1 l2)
qed





lemma sample_create_launched:
  assumes "fs_access w (resolve sample_env [v])" and "fs_access w (resolve sample_env [a])"
    and "\<not> le_zero n"
  shows "launched (snd (createLoopedVideoWithAudio sample_env w v a n outName fhd))
           = launched w @
             [Spawn ''ffprobe'' (probeArgs (resolve sample_env [v])),
              Spawn ''ffmpeg'' (loopArgs (tempConcatFilePath sample_env 1700000000000)
                                  (tempLoopedVideoPath sample_env 1700000000000)),
              Spawn ''ffmpeg'' (combineArgs (tempLoopedVideoPath sample_env 1700000000000)
                (resolve sample_env [a]) fhd
                (toFixed3 (numberToString sample_env) (mul (Num (5 / 2)) n))
                (resolve sample_env [OUTPUT_DIR sample_env, outName]))]"
    and "fst (createLoopedVideoWithAudio sample_env w v a n outName fhd)
           = Inr (resolve sample_env [OUTPUT_DIR sample_env, outName], outName)"
proof -
  have k: "clock sample_env t = 1700000000000" for t by (simp add: sample_env_def)
  show "launched (snd (createLoopedVideoWithAudio sample_env w v a n outName fhd))
           = launched w @
             [Spawn ''ffprobe'' (probeArgs (resolve sample_env [v])),
              Spawn ''ffmpeg'' (loopArgs (tempConcatFilePath sample_env 1700000000000)
                                  (tempLoopedVideoPath sample_env 1700000000000)),
              Spawn ''ffmpeg'' (combineArgs (tempLoopedVideoPath sample_env 1700000000000)
                (resolve sample_env [a]) fhd
                (toFixed3 (numberToString sample_env) (mul (Num (5 / 2)) n))
                (resolve sample_env [OUTPUT_DIR sample_env, outName]))]"
    unfolding create_run [OF assms]
    by (simp add: sample_try finally_launched k)
  show "fst (createLoopedVideoWithAudio sample_env w v a n outName fhd)
           = Inr (resolve sample_env [OUTPUT_DIR sample_env, outName], outName)"
    unfolding create_run [OF assms]
    by (simp add: sample_try)
qed

lemma sample_other: "fs_access sample_world (resolve sample_env [''other.mp4''])"
  by (simp add: fs_access_def sample_world_def sample_env_def sample_resolve_def
        sample_join_def backslash_def)

lemma sample_resolve_abs:
  "resolve sample_env [sample_resolve [''clip.mp4'']] = sample_resolve [''clip.mp4'']"
  "resolve sample_env [sample_resolve [''other.mp4'']] = sample_resolve [''other.mp4'']"
  "resolve sample_env [sample_resolve [''song.mp3'']] = sample_resolve [''song.mp3'']"
  by (simp_all add: sample_env_def sample_resolve_def sample_join_def)

lemma sample_route:
  assumes "videoFile req = Some v" and "audioFile req = Some a"
    and "body_numLoops req = Some ''2''"
    and "fs_access w (resolve sample_env [file_path v])"
    and "fs_access w (resolve sample_env [file_path a])"
    and "parse_name sample_env (originalname v) = ''clip''"
  shows "res_outputFileName (fst (process_video sample_env w req))
           = Some ''looped_clip_1700000000000.mp4''"
proof -
  have p: "parseInt ''2'' = Some 2"
    by (simp add: parseInt_def is_ws_def is_digit_in_def digit_val_def digits_value_def Let_def)
  have n: "int_number (Some 2) = Num 2" by (simp add: int_number_def)
  have ok: "\<not> (isNaN (Num 2) \<or> less_num (Num 2) (Num 1) \<or> less_num (Num 1000) (Num 2))"
    by (simp add: isNaN_def less_num_def)
  have z: "\<not> le_zero (Num 2)" by (simp add: le_zero_def)
  have k: "clock sample_env t = 1700000000000" for t by (simp add: sample_env_def)
  have s: "sanitize ''clip'' = ''clip''" by (simp add: sanitize_def is_name_char_def)
  let ?w1 = "w\<lparr>ticks := Suc (ticks w)\<rparr>"
  have a1: "fs_access ?w1 (resolve sample_env [file_path v])"
    "fs_access ?w1 (resolve sample_env [file_path a])"
    using assms(4,5) by (simp_all add: fs_access_def)
  note c = sample_create_launched(2) [OF a1 z]
  show ?thesis
    using assms(1-3,6) ok
    by (simp add: process_video_def Let_def Date_now_def p n k s show_nat_sample
          split: prod.splits sum.splits)
       (metis c fst_conv sum.distinct(1))
qed

section \<open>The claims\<close>













text \<open>
  C6, as stated, fails on the script \<open>VideoLooper.js\<close>: both of its stages hand one
  command line to a shell through \<open>exec\<close>.
\<close>

theorem script_hands_a_string_to_the_shell:
  "launched (snd (VideoLooper_createLoopedVideoWithAudio sample_env sample_world
      ''clip.mp4'' ''song.mp3'' (Num 2) ''out.mp4''))
   = [Exec (loopCommand (resolve sample_env [''ffmpeg_concat_list.txt''])
              (resolve sample_env [''temp_looped_video_only.mp4''])),
      Exec (combineCommand (resolve sample_env [''temp_looped_video_only.mp4''])
              (resolve sample_env [''song.mp3'']) (resolve sample_env [''out.mp4'']))]
   \<and> \<not> only_spawns sample_world
         (snd (VideoLooper_createLoopedVideoWithAudio sample_env sample_world
            ''clip.mp4'' ''song.mp3'' (Num 2) ''out.mp4''))"
proof -
  have "launched sample_world = []" by (simp add: sample_world_def)
  then show ?thesis
    by (simp add: sample_script_launched only_spawns_def is_spawn_def)
qed

text \<open>
  C6, amended. Every launch made by the server, in \<open>createLoopedVideoWithAudio\<close> and
  in the route \<open>/process-video\<close>, is a \<open>spawn\<close> of a tool name with an argument
  vector and no shell, on every path.
\<close>

theorem server_launches_without_shell:
  "only_spawns w (snd (createLoopedVideoWithAudio E w v a n outName fhd))
   \<and> only_spawns w (snd (process_video E w req))"
  by (simp add: create_only_spawns process_video_only_spawns)


text \<open>
  C8 does not hold of the code: the names are derived from the clock alone. Two jobs
  for different videos whose clock readings fall in the same millisecond launch the loop
  stage on the same manifest path and the same intermediate path, and two requests whose
  uploads carry the same original name are given the same output file name.
\<close>

theorem names_collide:
  "launched (snd (createLoopedVideoWithAudio sample_env sample_world
       ''clip.mp4'' ''song.mp3'' (Num 2) ''first.mp4'' False)) ! 1
     = Spawn ''ffmpeg'' (loopArgs (tempConcatFilePath sample_env 1700000000000)
                           (tempLoopedVideoPath sample_env 1700000000000))
   \<and> launched (snd (createLoopedVideoWithAudio sample_env sample_world
       ''other.mp4'' ''song.mp3'' (Num 3) ''second.mp4'' True)) ! 1
     = Spawn ''ffmpeg'' (loopArgs (tempConcatFilePath sample_env 1700000000000)
                           (tempLoopedVideoPath sample_env 1700000000000))
   \<and> tempConcatFilePath sample_env 1700000000000
     = UPLOAD_DIR sample_env @ [backslash] @ ''ffmpeg_concat_1700000000000.txt''
   \<and> res_outputFileName (fst (process_video sample_env sample_world (sample_request ''2'')))
     = Some ''looped_clip_1700000000000.mp4''
   \<and> res_outputFileName (fst (process_video sample_env sample_world
         \<lparr>videoFile = Some \<lparr>file_path = sample_resolve [''other.mp4''],
                              originalname = ''clip.mp4''\<rparr>,
          audioFile = Some \<lparr>file_path = sample_resolve [''song.mp3''],
                              originalname = ''song.mp3''\<rparr>,
          body_numLoops = Some ''2'',
          body_fullHD = Some ''true''\<rparr>))
     = Some ''looped_clip_1700000000000.mp4''"
proof -
  have z: "\<not> le_zero (Num 2)" "\<not> le_zero (Num 3)" by (simp_all add: le_zero_def)
  have l: "launched sample_world = []" by (simp add: sample_world_def)
  have p: "tempConcatFilePath sample_env 1700000000000
     = UPLOAD_DIR sample_env @ [backslash] @ ''ffmpeg_concat_1700000000000.txt''"
    by (simp add: tempConcatFilePath_def show_nat_sample sample_env_def sample_resolve_def
          sample_join_def)
  have a: "fs_access sample_world (sample_resolve [''clip.mp4''])"
    "fs_access sample_world (sample_resolve [''other.mp4''])"
    "fs_access sample_world (sample_resolve [''song.mp3''])"
    using sample_access sample_other by (simp_all add: sample_env_def)
  have n: "parse_name sample_env ''clip.mp4'' = ''clip''" by (simp add: sample_env_def)
  have r1: "res_outputFileName (fst (process_video sample_env sample_world (sample_request ''2'')))
     = Some ''looped_clip_1700000000000.mp4''"
    by (rule sample_route [where
          v = "\<lparr>file_path = sample_resolve [''clip.mp4''], originalname = ''clip.mp4''\<rparr>"
          and a = "\<lparr>file_path = sample_resolve [''song.mp3''], originalname = ''song.mp3''\<rparr>"])
       (simp_all add: sample_request_def sample_resolve_abs a n)
  have r2: "res_outputFileName (fst (process_video sample_env sample_world
         \<lparr>videoFile = Some \<lparr>file_path = sample_resolve [''other.mp4''],
                              originalname = ''clip.mp4''\<rparr>,
          audioFile = Some \<lparr>file_path = sample_resolve [''song.mp3''],
                              originalname = ''song.mp3''\<rparr>,
          body_numLoops = Some ''2'',
          body_fullHD = Some ''true''\<rparr>))
     = Some ''looped_clip_1700000000000.mp4''"
    by (rule sample_route [where
          v = "\<lparr>file_path = sample_resolve [''other.mp4''], originalname = ''clip.mp4''\<rparr>"
          and a = "\<lparr>file_path = sample_resolve [''song.mp3''], originalname = ''song.mp3''\<rparr>"])
       (simp_all add: sample_resolve_abs a n)
  from r1 r2 show ?thesis
    by (simp add: sample_create_launched(1) [OF sample_access z(1)]
          sample_create_launched(1) [OF sample_other sample_access(2) z(2)] l p)
qed

text \<open>
  C9. Whatever the prober does, \<open>getVideoDuration\<close> returns a number exactly when the
  prober closed with code 0 and \<open>parseFloat\<close> of its trimmed standard output is a
  number above zero, and then it returns that number. In every other case (the prober
  could not be started, closed with another code, printed nothing that parses, or
  printed a value that is not positive) it throws. The error thrown after the prober ran
  holds the error it wraps as \<open>originalError\<close>, and that one holds both captured
  streams unchanged; after a failed command the non-empty streams are also on the thrown
  error itself.
\<close>

theorem probe_outcome:
  assumes "tool E ''ffprobe'' (probeArgs p) (files w) = (oc, fs')"
  shows "case oc of
           SpawnError msg \<Rightarrow> isl (fst (getVideoDuration E w p))
         | Closed c out err \<Rightarrow>
             if c = ExitCode 0 \<and> (\<exists>r. parseFloat E (trim out) = Num r \<and> 0 < r)
             then fst (getVideoDuration E w p) = Inr (parseFloat E (trim out))
             else \<exists>e orig. fst (getVideoDuration E w p) = Inl e
                    \<and> originalError e = Some orig
                    \<and> (if c = ExitCode 0
                        then ffmpegStdout orig = Some out \<and> ffmpegStderr orig = Some err
                        else stdout orig = Some out \<and> stderr orig = Some err
                             \<and> ffmpegStdout e = (if out = [] then None else Some out)
                             \<and> ffmpegStderr e = (if err = [] then None else Some err))"
proof (cases oc)
  case (SpawnError msg)
  with assms show ?thesis
    by (simp add: getVideoDuration_def getVideoDuration_try_def executeCommand_def Let_def)
next
  case (Closed c out err)
  show ?thesis
  proof (cases "c = ExitCode 0")
    case False
    with Closed assms show ?thesis
      by (simp add: getVideoDuration_def getVideoDuration_try_def executeCommand_def Let_def
            js_or_def truthy_def original_field_def)
  next
    case True
    show ?thesis
    proof (cases "parseFloat E (trim out)")
      case NaN
      with True Closed assms show ?thesis
        by (simp add: getVideoDuration_def getVideoDuration_try_def executeCommand_def Let_def
              isNaN_def le_zero_def)
    next
      case (Num r)
      with True Closed assms show ?thesis
        by (simp add: getVideoDuration_def getVideoDuration_try_def executeCommand_def Let_def
              isNaN_def le_zero_def not_less)
    qed
  qed
qed


theorem probe_outcome_witness:
  "tool sample_env ''ffprobe'' (probeArgs ''clip.mp4'') (files sample_world)
     = (Closed (ExitCode 0) (''2.500000'' @ [newline]) [], files sample_world)
   \<and> fst (getVideoDuration sample_env sample_world ''clip.mp4'') = Inr (Num (5 / 2))
   \<and> isl (fst (getVideoDuration
         (sample_env\<lparr>tool := (\<lambda>c a fs. (Closed (ExitCode 1) [] ''moov atom not found'', fs))\<rparr>)
         sample_world ''clip.mp4''))
   \<and> ffmpegStderr (projl (fst (getVideoDuration
         (sample_env\<lparr>tool := (\<lambda>c a fs. (Closed (ExitCode 1) [] ''moov atom not found'', fs))\<rparr>)
         sample_world ''clip.mp4''))) = Some ''moov atom not found''
   \<and> isl (fst (getVideoDuration
         (sample_env\<lparr>tool := (\<lambda>c a fs. (Closed (ExitCode 0) ''N/A'' ''no duration'', fs))\<rparr>)
         sample_world ''clip.mp4''))
   \<and> map_option ffmpegStderr (originalError (projl (fst (getVideoDuration
         (sample_env\<lparr>tool := (\<lambda>c a fs. (Closed (ExitCode 0) ''N/A'' ''no duration'', fs))\<rparr>)
         sample_world ''clip.mp4'')))) = Some (Some ''no duration'')"
proof -
  let ?E1 = "sample_env\<lparr>tool := (\<lambda>c a fs. (Closed (ExitCode 1) [] ''moov atom not found'', fs))\<rparr>"
  let ?E2 = "sample_env\<lparr>tool := (\<lambda>c a fs. (Closed (ExitCode 0) ''N/A'' ''no duration'', fs))\<rparr>"
  have t0: "tool sample_env ''ffprobe'' (probeArgs ''clip.mp4'') (files sample_world)
     = (Closed (ExitCode 0) (''2.500000'' @ [newline]) [], files sample_world)"
    by (simp add: sample_env_def sample_tool_def)
  have tr: "trim (''2.500000'' @ [newline]) = ''2.500000''"
    by (simp add: trim_def is_ws_def newline_def)
  have pf: "parseFloat sample_env ''2.500000'' = Num (5 / 2)"
    by (simp add: sample_env_def sample_parseFloat_def)
  have t1: "tool ?E1 ''ffprobe'' (probeArgs ''clip.mp4'') (files sample_world)
     = (Closed (ExitCode 1) [] ''moov atom not found'', files sample_world)"
    by simp
  have t2: "tool ?E2 ''ffprobe'' (probeArgs ''clip.mp4'') (files sample_world)
     = (Closed (ExitCode 0) ''N/A'' ''no duration'', files sample_world)"
    by simp
  have na: "parseFloat sample_env (trim ''N/A'') = NaN"
    by (simp add: sample_env_def sample_parseFloat_def trim_def is_ws_def)
  have ex: "\<exists>r::rat. r * 2 = 5 \<and> 0 < r"
    by (rule exI [of _ "5 / 2"]) simp
  from probe_outcome [OF t0]
  have a: "fst (getVideoDuration sample_env sample_world ''clip.mp4'') = Inr (Num (5 / 2))"
    by (simp add: tr [unfolded append.simps] pf ex)
  from probe_outcome [OF t1]
  obtain e1 o1 where e1:
    "fst (getVideoDuration ?E1 sample_world ''clip.mp4'') = Inl e1"
    "ffmpegStderr e1 = Some ''moov atom not found''"
    by auto
  from probe_outcome [OF t2]
  obtain e2 o2 where e2:
    "fst (getVideoDuration ?E2 sample_world ''clip.mp4'') = Inl e2"
    "originalError e2 = Some o2" "ffmpegStderr o2 = Some ''no duration''"
    by (auto simp: na)
  from t0 a e1 e2 show ?thesis by simp
qed



end
